theory Spec2Isabelle
  imports Complex_Main "HOL-Library.Sublist"
begin

section \<open>The communication core: \<^verbatim>\<open>distributed/comm/core.py\<close>\<close>

text \<open>
  The module holds two registries (\<^verbatim>\<open>connectors\<close>, \<^verbatim>\<open>listeners\<close>), the abstract
  classes \<^verbatim>\<open>Comm\<close> and \<^verbatim>\<open>Listener\<close>, and the functions \<^verbatim>\<open>connect\<close> and \<^verbatim>\<open>listen\<close>.
  Everything the two functions call outside the module (the address parser, the clock,
  the connector, tornado's \<^verbatim>\<open>with_timeout\<close> and \<^verbatim>\<open>sleep\<close>, the listener class) is a
  parameter of the model; the world those calls act on is an explicit state \<open>'w\<close> that
  is passed through. Every such call is written to a trace, together with what it
  returned or raised, so that properties of the order and the number of calls can be
  stated. Seconds (Python floats in the source) are real numbers; the rounding of
  \<^verbatim>\<open>start + timeout\<close> and \<^verbatim>\<open>deadline - time()\<close> is not modelled.
\<close>

subsection \<open>Exceptions and messages\<close>

text \<open>
  A message built by \<^verbatim>\<open>fmt % args\<close> is kept as the format string and its arguments:
  \<open>Repr s\<close> is a string argument of \<^verbatim>\<open>%r\<close>, \<open>Str s\<close> a string argument of \<^verbatim>\<open>%s\<close>,
  \<open>Str_seconds t\<close> a number argument of \<^verbatim>\<open>%s\<close>.
\<close>

datatype fmt_arg = Repr string | Str string | Str_seconds real

datatype message = Percent string "fmt_arg list"

text \<open>
  How the \<^verbatim>\<open>try\<close> statement of \<^verbatim>\<open>connect\<close> sees an exception raised inside it:
  \<open>EnvironmentError s\<close> is any instance of \<^verbatim>\<open>EnvironmentError\<close> with \<^verbatim>\<open>str(e) = s\<close>,
  \<open>TimeoutError\<close> is tornado's \<^verbatim>\<open>gen.TimeoutError\<close>, and \<open>Other x\<close> is any exception that
  neither \<^verbatim>\<open>except\<close> clause matches.
\<close>

datatype 'x raised = EnvironmentError string | TimeoutError | Other 'x

text \<open>
  What \<^verbatim>\<open>connect\<close> and \<^verbatim>\<open>listen\<close> raise: the \<^verbatim>\<open>ValueError\<close> for an unknown scheme, the
  \<^verbatim>\<open>IOError\<close> of \<^verbatim>\<open>_raise\<close>, or an exception of a callee that passes through unchanged.
\<close>

datatype 'x error = ValueError message | IOError message | Propagated 'x

subsection \<open>The environment\<close>

text \<open>
  \<open>parse_address\<close> is \<^verbatim>\<open>addressing.parse_address\<close>, \<open>time\<close> is \<^verbatim>\<open>metrics.time\<close>,
  \<open>with_timeout b f\<close> is \<^verbatim>\<open>yield gen.with_timeout(timedelta(seconds=b), f,
  quiet_exceptions=EnvironmentError)\<close> and \<open>sleep d\<close> is \<^verbatim>\<open>yield gen.sleep(d)\<close>.
  A connector is the method \<^verbatim>\<open>connector.connect(loc, deserialize=...)\<close>: it returns a
  future or raises.
\<close>

record ('w, 'f, 'c, 'x) env =
  parse_address :: "string \<Rightarrow> 'x + string \<times> string"
  time :: "'w \<Rightarrow> real \<times> 'w"
  with_timeout :: "real \<Rightarrow> 'f \<Rightarrow> 'w \<Rightarrow> ('x raised + 'c) \<times> 'w"
  sleep :: "real \<Rightarrow> 'w \<Rightarrow> 'w"

type_synonym ('w, 'f, 'x) connector = "string \<Rightarrow> bool \<Rightarrow> 'w \<Rightarrow> ('x raised + 'f) \<times> 'w"

datatype 'x event =
    Time real
  | Connector_connect string bool "'x raised option"
  | With_timeout real "'x raised option"
  | Sleep real
  | Debug string

definition raised_of :: "'a + 'b \<Rightarrow> 'a option" where
  "raised_of r = (case r of Inl e \<Rightarrow> Some e | Inr _ \<Rightarrow> None)"

subsection \<open>\<^verbatim>\<open>connect\<close>\<close>

text \<open>
  The inner function \<^verbatim>\<open>_raise\<close>: \<^verbatim>\<open>error or "..."\<close> takes the default text when
  \<^verbatim>\<open>error\<close> is \<^verbatim>\<open>None\<close> or the empty string.
\<close>

definition connect_raise :: "string \<Rightarrow> real \<Rightarrow> string option \<Rightarrow> message" where
  "connect_raise addr timeout error =
     (let error' = (case error of
                      None \<Rightarrow> ''connect() didn't finish in time''
                    | Some s \<Rightarrow> if s = [] then ''connect() didn't finish in time'' else s)
      in Percent ''Timed out trying to connect to %r after %s s: %s''
           [Repr addr, Str_seconds timeout, Str error'])"

text \<open>
  The two statements under \<^verbatim>\<open>try\<close>: the connector is called first, the clock is read
  after it has returned, and the wait for the future is bounded by \<^verbatim>\<open>deadline - time()\<close>.
\<close>

definition try_body ::
  "('w, 'f, 'c, 'x) env \<Rightarrow> ('w, 'f, 'x) connector \<Rightarrow> string \<Rightarrow> bool \<Rightarrow> real \<Rightarrow> 'w
     \<Rightarrow> ('x raised + 'c) \<times> 'x event list \<times> 'w" where
  "try_body rt connector loc deserialize deadline w =
     (case connector loc deserialize w of
        (Inl r, w1) \<Rightarrow> (Inl r, [Connector_connect loc deserialize (Some r)], w1)
      | (Inr future, w1) \<Rightarrow>
          (case time rt w1 of
             (now, w2) \<Rightarrow>
               (case with_timeout rt (deadline - now) future w2 of
                  (r, w3) \<Rightarrow>
                    (r, [Connector_connect loc deserialize None, Time now,
                         With_timeout (deadline - now) (raised_of r)], w3))))"

text \<open>
  The \<^verbatim>\<open>while True\<close> loop. It need not end (a connector that always refuses under a clock
  that never reaches the deadline), so it is a partial function: \<open>None\<close> is the run
  that never returns. \<open>error\<close> is the loop's variable, \<open>tr\<close> the trace so far.
\<close>

partial_function (option) connect_loop ::
  "('w, 'f, 'c, 'x) env \<Rightarrow> ('w, 'f, 'x) connector \<Rightarrow> string \<Rightarrow> real \<Rightarrow> string \<Rightarrow> bool
     \<Rightarrow> real \<Rightarrow> string option \<Rightarrow> 'x event list \<Rightarrow> 'w
     \<Rightarrow> (('x error + 'c) \<times> 'x event list \<times> 'w) option" where
  "connect_loop rt connector addr timeout loc deserialize deadline error tr w =
     (case try_body rt connector loc deserialize deadline w of
        (Inr comm, evs, w1) \<Rightarrow> Some (Inr comm, tr @ evs, w1)
      | (Inl (EnvironmentError e), evs, w1) \<Rightarrow>
          (case time rt w1 of
             (now, w2) \<Rightarrow>
               if now < deadline
               then connect_loop rt connector addr timeout loc deserialize deadline (Some e)
                      (tr @ evs @ [Time now, Sleep (1 / 100), Debug ''sleeping on connect''])
                      (sleep rt (1 / 100) w2)
               else Some (Inl (IOError (connect_raise addr timeout (Some e))),
                          tr @ evs @ [Time now], w2))
      | (Inl TimeoutError, evs, w1) \<Rightarrow>
          Some (Inl (IOError (connect_raise addr timeout error)), tr @ evs, w1)
      | (Inl (Other x), evs, w1) \<Rightarrow> Some (Inl (Propagated x), tr @ evs, w1))"

definition connect ::
  "('w, 'f, 'c, 'x) env \<Rightarrow> (string \<rightharpoonup> ('w, 'f, 'x) connector) \<Rightarrow> string \<Rightarrow> real \<Rightarrow> bool \<Rightarrow> 'w
     \<Rightarrow> (('x error + 'c) \<times> 'x event list \<times> 'w) option" where
  "connect rt connectors addr timeout deserialize w =
     (case parse_address rt addr of
        Inl x \<Rightarrow> Some (Inl (Propagated x), [], w)
      | Inr (scheme, loc) \<Rightarrow>
          (case connectors scheme of
             None \<Rightarrow>
               Some (Inl (ValueError (Percent ''unknown scheme %r in address %r''
                                        [Repr scheme, Repr addr])), [], w)
           | Some connector \<Rightarrow>
               (case time rt w of
                  (start, w1) \<Rightarrow>
                    connect_loop rt connector addr timeout loc deserialize (start + timeout)
                      None [Time start] w1)))"

subsection \<open>\<^verbatim>\<open>Listener\<close> and \<^verbatim>\<open>listen\<close>\<close>

text \<open>
  A \<^verbatim>\<open>Listener\<close> is given by the abstract methods its subclass defines; \<^verbatim>\<open>start\<close> and
  \<^verbatim>\<open>stop\<close> act on the world and may raise. (The abstract properties \<^verbatim>\<open>listen_address\<close>
  and \<^verbatim>\<open>contact_address\<close> are not used by the module.) The calls made on a listener
  are traced.
\<close>

record ('w, 'x) listener =
  start :: "'w \<Rightarrow> 'x option \<times> 'w"
  stop :: "'w \<Rightarrow> 'x option \<times> 'w"

datatype listener_event = Init string bool | Start | Body | Stop

text \<open>\<^verbatim>\<open>__enter__\<close> calls \<^verbatim>\<open>self.start()\<close> and returns \<^verbatim>\<open>self\<close>.\<close>

definition Listener_enter ::
  "('w, 'x) listener \<Rightarrow> 'w \<Rightarrow> ('x + ('w, 'x) listener) \<times> listener_event list \<times> 'w" where
  "Listener_enter self w =
     (case start self w of
        (Some x, w1) \<Rightarrow> (Inl x, [Start], w1)
      | (None, w1) \<Rightarrow> (Inr self, [Start], w1))"

text \<open>
  \<^verbatim>\<open>__exit__\<close> calls \<^verbatim>\<open>self.stop()\<close> whatever \<^verbatim>\<open>*exc\<close> is, and returns \<^verbatim>\<open>None\<close> (here the
  unit value).
\<close>

definition Listener_exit ::
  "('w, 'x) listener \<Rightarrow> 'x option \<Rightarrow> 'w \<Rightarrow> ('x + unit) \<times> listener_event list \<times> 'w" where
  "Listener_exit self exc w =
     (case stop self w of
        (Some x, w1) \<Rightarrow> (Inl x, [Stop], w1)
      | (None, w1) \<Rightarrow> (Inr (), [Stop], w1))"

text \<open>
  Python's statement \<^verbatim>\<open>with listener as l: body(l)\<close>: the value of \<^verbatim>\<open>__enter__\<close> is
  bound, the body runs, and \<^verbatim>\<open>__exit__\<close> is called with the body's exception, if any.
  \<^verbatim>\<open>__exit__\<close> returns \<^verbatim>\<open>None\<close>, which is false, so the body's exception is raised again;
  an exception of \<^verbatim>\<open>__exit__\<close> itself replaces it.
\<close>

definition with_stmt ::
  "('w, 'x) listener \<Rightarrow> (('w, 'x) listener \<Rightarrow> 'w \<Rightarrow> ('x + 'a) \<times> 'w) \<Rightarrow> 'w
     \<Rightarrow> ('x + 'a) \<times> listener_event list \<times> 'w" where
  "with_stmt mgr body w =
     (case Listener_enter mgr w of
        (Inl x, tr, w1) \<Rightarrow> (Inl x, tr, w1)
      | (Inr l, tr, w1) \<Rightarrow>
          (case body l w1 of
             (Inl x, w2) \<Rightarrow>
               (case Listener_exit mgr (Some x) w2 of
                  (Inl x', tr', w3) \<Rightarrow> (Inl x', tr @ [Body] @ tr', w3)
                | (Inr _, tr', w3) \<Rightarrow> (Inl x, tr @ [Body] @ tr', w3))
           | (Inr a, w2) \<Rightarrow>
               (case Listener_exit mgr None w2 of
                  (Inl x', tr', w3) \<Rightarrow> (Inl x', tr @ [Body] @ tr', w3)
                | (Inr _, tr', w3) \<Rightarrow> (Inr a, tr @ [Body] @ tr', w3))))"

text \<open>
  A listener class is its constructor \<^verbatim>\<open>listener_class(loc, handle_comm, deserialize)\<close>.
\<close>

type_synonym ('w, 'h, 'x) listener_class =
  "string \<Rightarrow> 'h \<Rightarrow> bool \<Rightarrow> 'w \<Rightarrow> ('x + ('w, 'x) listener) \<times> 'w"

definition listen ::
  "('w, 'f, 'c, 'x) env \<Rightarrow> (string \<rightharpoonup> ('w, 'h, 'x) listener_class) \<Rightarrow> string \<Rightarrow> 'h \<Rightarrow> bool \<Rightarrow> 'w
     \<Rightarrow> ('x error + ('w, 'x) listener) \<times> listener_event list \<times> 'w" where
  "listen rt listeners addr handle_comm deserialize w =
     (case parse_address rt addr of
        Inl x \<Rightarrow> (Inl (Propagated x), [], w)
      | Inr (scheme, loc) \<Rightarrow>
          (case listeners scheme of
             None \<Rightarrow>
               (Inl (ValueError (Percent ''unknown scheme %r in address %r''
                                   [Repr scheme, Repr addr])), [], w)
           | Some listener_class \<Rightarrow>
               (case listener_class loc handle_comm deserialize w of
                  (Inl x, w1) \<Rightarrow> (Inl (Propagated x), [Init loc deserialize], w1)
                | (Inr l, w1) \<Rightarrow> (Inr l, [Init loc deserialize], w1))))"

subsection \<open>Reading a trace\<close>

text \<open>The text of the \<^verbatim>\<open>EnvironmentError\<close> an event ended with, if it did.\<close>

fun caught :: "'x event \<Rightarrow> string option" where
  "caught (Connector_connect _ _ (Some (EnvironmentError e))) = Some e"
| "caught (With_timeout _ (Some (EnvironmentError e))) = Some e"
| "caught _ = None"

text \<open>The last \<^verbatim>\<open>EnvironmentError\<close> of a trace.\<close>

fun last_error :: "'x event list \<Rightarrow> string option" where
  "last_error [] = None"
| "last_error (ev # evs) =
     (case last_error evs of Some e \<Rightarrow> Some e | None \<Rightarrow> caught ev)"


text \<open>The bounds of the waits of a trace, the clock readings, and the sleeps, in order.\<close>

fun budgets :: "'x event list \<Rightarrow> real list" where
  "budgets [] = []"
| "budgets (With_timeout b r # evs) = b # budgets evs"
| "budgets (ev # evs) = budgets evs"

fun readings :: "'x event list \<Rightarrow> real list" where
  "readings [] = []"
| "readings (Time t # evs) = t # readings evs"
| "readings (ev # evs) = readings evs"


fun attempts :: "'x event list \<Rightarrow> nat" where
  "attempts [] = 0"
| "attempts (Connector_connect loc deserialize r # evs) = Suc (attempts evs)"
| "attempts (ev # evs) = attempts evs"






subsection \<open>The environment, recorded\<close>

text \<open>
  The trace above is written by the model of \<^verbatim>\<open>connect\<close>. To say what the environment
  was really asked to do, any environment can be wrapped so that it keeps a record of
  its own: each operation, when called, writes down the arguments it was given and what
  it answered, and otherwise behaves as before. The record is part of the wrapped world.
  The log line of \<^verbatim>\<open>logger.debug\<close> is no call of the environment; \<open>observable\<close> leaves it
  out of a trace.
\<close>

definition recording :: "('w, 'f, 'c, 'x) env \<Rightarrow> ('x event list \<times> 'w, 'f, 'c, 'x) env" where
  "recording rt =
     \<lparr>parse_address = parse_address rt,
      time = (\<lambda>(seen, w). case time rt w of (t, w1) \<Rightarrow> (t, (seen @ [Time t], w1))),
      with_timeout = (\<lambda>bound future (seen, w).
         case with_timeout rt bound future w of
           (r, w1) \<Rightarrow> (r, (seen @ [With_timeout bound (raised_of r)], w1))),
      sleep = (\<lambda>d (seen, w). (seen @ [Sleep d], sleep rt d w))\<rparr>"

definition recording_connector ::
  "('w, 'f, 'x) connector \<Rightarrow> ('x event list \<times> 'w, 'f, 'x) connector" where
  "recording_connector c loc deserialize =
     (\<lambda>(seen, w). case c loc deserialize w of
        (r, w1) \<Rightarrow> (r, (seen @ [Connector_connect loc deserialize (raised_of r)], w1)))"

definition recorded ::
  "(string \<rightharpoonup> ('w, 'f, 'x) connector) \<Rightarrow> (string \<rightharpoonup> ('x event list \<times> 'w, 'f, 'x) connector)" where
  "recorded connectors scheme = map_option recording_connector (connectors scheme)"

fun observable :: "'x event list \<Rightarrow> 'x event list" where
  "observable [] = []"
| "observable (Debug msg # evs) = observable evs"
| "observable (ev # evs) = ev # observable evs"

subsection \<open>A scripted environment\<close>

text \<open>
  The environment of the example scenarios: the world is the clock and the script of
  what the coming attempts will do. An attempt takes one millisecond; when the script
  is over the peer never answers, and the wait ends with \<^verbatim>\<open>gen.TimeoutError\<close> after its
  bound. Two addresses parse.
\<close>

definition scripted :: "(real \<times> (unit raised + string) list, unit, string, unit) env" where
  "scripted =
     \<lparr>parse_address = (\<lambda>addr. if addr = ''mem://x'' then Inr (''mem'', ''x'')
                              else if addr = ''bogus://host'' then Inr (''bogus'', ''host'')
                              else Inl ()),
      time = (\<lambda>(clock, script). (clock, (clock, script))),
      with_timeout = (\<lambda>bound future (clock, script).
         case script of
           [] \<Rightarrow> (Inl TimeoutError, (clock + max bound 0, []))
         | r # rs \<Rightarrow> (r, (clock + 1 / 1000, rs))),
      sleep = (\<lambda>d (clock, script). (clock + d, script))\<rparr>"

definition mem_connector :: "(real \<times> (unit raised + string) list, unit, unit) connector" where
  "mem_connector loc deserialize w = (Inr (), w)"

definition registry ::
  "string \<rightharpoonup> (real \<times> (unit raised + string) list, unit, unit) connector" where
  "registry = [''mem'' \<mapsto> mem_connector]"

text \<open>
  A listener class of the scripted world: starting the listener takes a second of the
  clock.
\<close>

definition scripted_listener :: "(real \<times> (unit raised + string) list, unit) listener" where
  "scripted_listener =
     \<lparr>start = (\<lambda>(clock, script). (None, (clock + 1, script))),
      stop = (\<lambda>w. (None, w))\<rparr>"

definition mem_listener_class ::
  "(real \<times> (unit raised + string) list, unit, unit) listener_class" where
  "mem_listener_class loc handle_comm deserialize w = (Inr scripted_listener, w)"

definition listener_registry ::
  "string \<rightharpoonup> (real \<times> (unit raised + string) list, unit, unit) listener_class" where
  "listener_registry = [''mem'' \<mapsto> mem_listener_class]"

text \<open>
  A listener whose world counts the calls of \<^verbatim>\<open>start\<close> and of \<^verbatim>\<open>stop\<close>, and a body
  that raises.
\<close>

definition counting_listener :: "(nat \<times> nat, string) listener" where
  "counting_listener =
     \<lparr>start = (\<lambda>(starts, stops). (None, (starts + 1, stops))),
      stop = (\<lambda>(starts, stops). (None, (starts, stops + 1)))\<rparr>"

definition failing_body ::
  "(nat \<times> nat, string) listener \<Rightarrow> nat \<times> nat \<Rightarrow> (string + unit) \<times> (nat \<times> nat)" where
  "failing_body l w = (Inl ''boom'', w)"



text \<open>The trace of a connection that is refused twice, with a timeout of 5 ms.\<close>

definition refused_twice :: "unit event list" where
  "refused_twice =
     [Time 0, Connector_connect ''x'' True None, Time 0,
      With_timeout (1 / 200) (Some (EnvironmentError ''refused'')),
      Time (1 / 1000), Sleep (1 / 100), Debug ''sleeping on connect'',
      Connector_connect ''x'' True None, Time (11 / 1000),
      With_timeout (- (6 / 1000)) (Some (EnvironmentError ''unreachable'')),
      Time (12 / 1000)]"





section \<open>Properties\<close>

subsection \<open>The loop, case by case\<close>

text \<open>
  Induction over a run of the loop that returns: one case for each way an iteration
  ends, with the hypothesis for the next iteration where the loop goes on.
\<close>

lemma connect_loop_cases [consumes 1, case_names success retry expired timed_out other]:
  assumes run: "connect_loop rt c addr timeout loc des deadline error tr w = Some y"
    and success: "\<And>error tr w comm evs w1.
      try_body rt c loc des deadline w = (Inr comm, evs, w1)
      \<Longrightarrow> P error tr w (Inr comm, tr @ evs, w1)"
    and retry: "\<And>error tr w e evs w1 now w2 y.
      try_body rt c loc des deadline w = (Inl (EnvironmentError e), evs, w1)
      \<Longrightarrow> time rt w1 = (now, w2) \<Longrightarrow> now < deadline
      \<Longrightarrow> P (Some e) (tr @ evs @ [Time now, Sleep (1 / 100), Debug ''sleeping on connect''])
             (sleep rt (1 / 100) w2) y
      \<Longrightarrow> P error tr w y"
    and expired: "\<And>error tr w e evs w1 now w2.
      try_body rt c loc des deadline w = (Inl (EnvironmentError e), evs, w1)
      \<Longrightarrow> time rt w1 = (now, w2) \<Longrightarrow> \<not> now < deadline
      \<Longrightarrow> P error tr w (Inl (IOError (connect_raise addr timeout (Some e))), tr @ evs @ [Time now], w2)"
    and timed_out: "\<And>error tr w evs w1.
      try_body rt c loc des deadline w = (Inl TimeoutError, evs, w1)
      \<Longrightarrow> P error tr w (Inl (IOError (connect_raise addr timeout error)), tr @ evs, w1)"
    and other: "\<And>error tr w x evs w1.
      try_body rt c loc des deadline w = (Inl (Other x), evs, w1)
      \<Longrightarrow> P error tr w (Inl (Propagated x), tr @ evs, w1)"
  shows "P error tr w y"
proof -
  let ?Q = "\<lambda>rt' c' addr' timeout' loc' des' deadline' error tr w y.
     rt' = rt \<longrightarrow> c' = c \<longrightarrow> addr' = addr \<longrightarrow> timeout' = timeout \<longrightarrow> loc' = loc \<longrightarrow> des' = des
       \<longrightarrow> deadline' = deadline \<longrightarrow> P error tr w y"
  have "?Q rt c addr timeout loc des deadline error tr w y"
  proof (rule connect_loop.raw_induct [where P = ?Q, OF _ run], intro impI, goal_cases)
    case (1 f rt' c' addr' timeout' loc' des' deadline' error tr w y)
    note eqs = 1(3-9)
    note IH = 1(1) [unfolded eqs, rule_format, OF _ refl refl refl refl refl refl refl]
    note body = 1(2) [unfolded eqs]
    show ?case
    proof (cases "try_body rt c loc des deadline w")
      case (fields r evs w1)
      show ?thesis
      proof (cases r)
        case (Inr comm)
        with body fields success show ?thesis by auto
      next
        case (Inl ex)
        show ?thesis
        proof (cases ex)
          case (EnvironmentError e)
          obtain now w2 where t: "time rt w1 = (now, w2)" by (cases "time rt w1")
          show ?thesis
          proof (cases "now < deadline")
            case True
            with body fields Inl EnvironmentError t
            have "f rt c addr timeout loc des deadline (Some e)
                    (tr @ evs @ [Time now, Sleep (1 / 100), Debug ''sleeping on connect''])
                    (sleep rt (1 / 100) w2) = Some y" by simp
            from IH [OF this] retry [OF _ t True] fields Inl EnvironmentError
            show ?thesis by blast
          next
            case False
            with body fields Inl EnvironmentError t expired [OF _ t False]
            show ?thesis by auto
          qed
        next
          case TimeoutError
          with body fields Inl timed_out show ?thesis by auto
        next
          case (Other x)
          with body fields Inl other show ?thesis by auto
        qed
      qed
    qed
  qed
  then show ?thesis by simp
qed


lemma try_body_trace:
  assumes "try_body rt c loc des d w = (r, evs, w1)"
  shows "(\<exists>ex. r = Inl ex \<and> evs = [Connector_connect loc des (Some ex)])
       \<or> (\<exists>now. evs = [Connector_connect loc des None, Time now,
                          With_timeout (d - now) (raised_of r)])"
  using assms unfolding try_body_def
  by (auto split: prod.splits sum.splits)

lemma last_error_append:
  "last_error (xs @ ys) = (case last_error ys of Some e \<Rightarrow> Some e | None \<Rightarrow> last_error xs)"
  by (induction xs) (auto split: option.splits)





subsection \<open>One iteration\<close>


lemma connect_registered:
  assumes "parse_address rt addr = Inr (scheme, loc)" "connectors scheme = Some c"
    "time rt w0 = (t0, w0')"
  shows "connect rt connectors addr timeout des w0 =
         connect_loop rt c addr timeout loc des (t0 + timeout) None [Time t0] w0'"
  using assms by (simp add: connect_def)

lemma connect_loop_success:
  "try_body rt c loc des deadline w = (Inr comm, evs, w1) \<Longrightarrow>
   connect_loop rt c addr timeout loc des deadline error tr w = Some (Inr comm, tr @ evs, w1)"
  by (subst connect_loop.simps) simp

lemma connect_loop_transient:
  "try_body rt c loc des deadline w = (Inl (EnvironmentError e), evs, w1) \<Longrightarrow>
   time rt w1 = (now, w2) \<Longrightarrow>
   connect_loop rt c addr timeout loc des deadline error tr w =
     (if now < deadline
      then connect_loop rt c addr timeout loc des deadline (Some e)
             (tr @ evs @ [Time now, Sleep (1 / 100), Debug ''sleeping on connect''])
             (sleep rt (1 / 100) w2)
      else Some (Inl (IOError (connect_raise addr timeout (Some e))), tr @ evs @ [Time now], w2))"
  by (subst connect_loop.simps) simp

lemma connect_loop_timed_out:
  "try_body rt c loc des deadline w = (Inl TimeoutError, evs, w1) \<Longrightarrow>
   connect_loop rt c addr timeout loc des deadline error tr w =
     Some (Inl (IOError (connect_raise addr timeout error)), tr @ evs, w1)"
  by (subst connect_loop.simps) simp

lemma connect_loop_other:
  "try_body rt c loc des deadline w = (Inl (Other x), evs, w1) \<Longrightarrow>
   connect_loop rt c addr timeout loc des deadline error tr w =
     Some (Inl (Propagated x), tr @ evs, w1)"
  by (subst connect_loop.simps) simp

lemma try_body_last_error:
  assumes "try_body rt c loc des d w = (r, evs, w1)"
  shows "last_error evs = (case r of Inl (EnvironmentError e) \<Rightarrow> Some e | _ \<Rightarrow> None)"
  using try_body_trace [OF assms]
  by (auto simp: raised_of_def split: sum.splits raised.splits)




subsection \<open>Invariants of the loop\<close>


lemma connect_loop_error_is_last:
  assumes run: "connect_loop rt c addr timeout loc des deadline error tr w = Some (res, tr', w')"
    and inv: "error = last_error tr"
  shows "\<forall>m. res = Inl (IOError m) \<longrightarrow> m = connect_raise addr timeout (last_error tr')"
proof -
  let ?P = "\<lambda>error tr w y. error = last_error tr \<longrightarrow>
     (\<forall>m. fst y = Inl (IOError m) \<longrightarrow> m = connect_raise addr timeout (last_error (fst (snd y))))"
  have "?P error tr w (res, tr', w')"
    using run
  proof (induction rule: connect_loop_cases)
    case (success error tr w comm evs w1)
    show ?case by simp
  next
    case (retry error tr w e evs w1 now w2 y)
    from try_body_last_error [OF retry(1)] have "last_error evs = Some e" by simp
    then have "Some e = last_error (tr @ evs @ [Time now, Sleep (1 / 100), Debug ''sleeping on connect''])"
      by (simp add: last_error_append)
    with retry(4) show ?case by simp
  next
    case (expired error tr w e evs w1 now w2)
    from try_body_last_error [OF expired(1)] have "last_error evs = Some e" by simp
    then show ?case by (simp add: last_error_append)
  next
    case (timed_out error tr w evs w1)
    from try_body_last_error [OF timed_out(1)] have "last_error evs = None" by simp
    then show ?case by (simp add: last_error_append)
  next
    case (other error tr w x evs w1)
    show ?case by simp
  qed
  with inv show ?thesis by simp
qed










lemma connect_IOError_from_loop:
  assumes run: "connect rt connectors addr timeout des w0 = Some (Inl (IOError m), tr, w')"
  obtains scheme loc c t0 w1 where "parse_address rt addr = Inr (scheme, loc)"
    and "connectors scheme = Some c" and "time rt w0 = (t0, w1)"
    and "connect_loop rt c addr timeout loc des (t0 + timeout) None [Time t0] w1
           = Some (Inl (IOError m), tr, w')"
  using run unfolding connect_def
  by (auto split: sum.splits prod.splits option.splits)

subsection \<open>What the environment sees\<close>

text \<open>
  Run in a recording environment, \<^verbatim>\<open>connect\<close> returns what it returns in the plain one,
  and the record the environment has kept is the trace without the log lines: the
  arguments written in the trace are the arguments the environment was given.
\<close>

lemma observable_append: "observable (xs @ ys) = observable xs @ observable ys"
  by (induction xs rule: observable.induct) simp_all

lemma try_body_observable:
  assumes "try_body rt c loc des d w = (r, evs, w1)"
  shows "observable evs = evs"
  using try_body_trace [OF assms] by auto

lemma recording_parse: "parse_address (recording rt) addr = parse_address rt addr"
  by (simp add: recording_def)

lemma recording_time:
  "time rt w = (t, w1) \<Longrightarrow> time (recording rt) (seen, w) = (t, (seen @ [Time t], w1))"
  by (simp add: recording_def)

lemma recording_sleep: "sleep (recording rt) d (seen, w) = (seen @ [Sleep d], sleep rt d w)"
  by (simp add: recording_def)

lemma recorded_Some: "connectors scheme = Some c \<Longrightarrow> recorded connectors scheme = Some (recording_connector c)"
  by (simp add: recorded_def)

lemma try_body_recording:
  assumes "try_body rt c loc des d w = (r, evs, w1)"
  shows "try_body (recording rt) (recording_connector c) loc des d (seen, w)
           = (r, evs, (seen @ evs, w1))"
  using assms unfolding try_body_def recording_def recording_connector_def
  by (auto simp: raised_of_def split: prod.splits sum.splits)

lemma connect_loop_recording:
  assumes run: "connect_loop rt c addr timeout loc des deadline error tr w = Some (res, tr', w')"
  shows "\<exists>suffix. tr' = tr @ suffix
           \<and> (\<forall>seen. connect_loop (recording rt) (recording_connector c) addr timeout loc des
                       deadline error tr (seen, w)
                     = Some (res, tr', (seen @ observable suffix, w')))"
proof -
  let ?P = "\<lambda>error tr w y. \<exists>suffix. fst (snd y) = tr @ suffix
     \<and> (\<forall>seen. connect_loop (recording rt) (recording_connector c) addr timeout loc des
                 deadline error tr (seen, w)
               = Some (fst y, fst (snd y), (seen @ observable suffix, snd (snd y))))"
  have "?P error tr w (res, tr', w')"
    using run
  proof (induction rule: connect_loop_cases)
    case (success error tr w comm evs w1)
    have "\<forall>seen. connect_loop (recording rt) (recording_connector c) addr timeout loc des
                 deadline error tr (seen, w)
               = Some (Inr comm, tr @ evs, (seen @ observable evs, w1))"
      by (simp add: connect_loop_success [OF try_body_recording [OF success(1)]]
          try_body_observable [OF success(1)])
    then show ?case by auto
  next
    case (retry error tr w e evs w1 now w2 y)
    let ?tail = "[Time now, Sleep (1 / 100), Debug ''sleeping on connect'']"
    from retry(4) obtain suffix
      where y: "fst (snd y) = (tr @ evs @ ?tail) @ suffix"
        and rec: "\<And>seen. connect_loop (recording rt) (recording_connector c) addr timeout loc des
                 deadline (Some e) (tr @ evs @ ?tail) (seen, sleep rt (1 / 100) w2)
               = Some (fst y, fst (snd y), (seen @ observable suffix, snd (snd y)))"
      by blast
    have "\<forall>seen. connect_loop (recording rt) (recording_connector c) addr timeout loc des
                 deadline error tr (seen, w)
               = Some (fst y, fst (snd y), (seen @ observable (evs @ ?tail @ suffix), snd (snd y)))"
      using retry(3)
      by (simp add: connect_loop_transient [OF try_body_recording [OF retry(1)]
              recording_time [OF retry(2)]]
          recording_sleep rec observable_append try_body_observable [OF retry(1)])
    with y show ?case by auto
  next
    case (expired error tr w e evs w1 now w2)
    have "\<forall>seen. connect_loop (recording rt) (recording_connector c) addr timeout loc des
                 deadline error tr (seen, w)
               = Some (Inl (IOError (connect_raise addr timeout (Some e))), tr @ evs @ [Time now],
                       (seen @ observable (evs @ [Time now]), w2))"
      using expired(3)
      by (simp add: connect_loop_transient [OF try_body_recording [OF expired(1)]
              recording_time [OF expired(2)]]
          observable_append try_body_observable [OF expired(1)])
    then show ?case by auto
  next
    case (timed_out error tr w evs w1)
    have "\<forall>seen. connect_loop (recording rt) (recording_connector c) addr timeout loc des
                 deadline error tr (seen, w)
               = Some (Inl (IOError (connect_raise addr timeout error)), tr @ evs,
                       (seen @ observable evs, w1))"
      by (simp add: connect_loop_timed_out [OF try_body_recording [OF timed_out(1)]]
          try_body_observable [OF timed_out(1)])
    then show ?case by auto
  next
    case (other error tr w x evs w1)
    have "\<forall>seen. connect_loop (recording rt) (recording_connector c) addr timeout loc des
                 deadline error tr (seen, w)
               = Some (Inl (Propagated x), tr @ evs, (seen @ observable evs, w1))"
      by (simp add: connect_loop_other [OF try_body_recording [OF other(1)]]
          try_body_observable [OF other(1)])
    then show ?case by auto
  qed
  then show ?thesis by simp
qed

lemma connect_recording:
  assumes parse: "parse_address rt addr = Inr (scheme, loc)"
    and reg: "connectors scheme = Some c"
    and t0: "time rt w0 = (t0, w1)"
    and run: "connect rt connectors addr timeout des w0 = Some (res, tr, w')"
  shows "connect (recording rt) (recorded connectors) addr timeout des ([], w0)
           = Some (res, tr, (observable tr, w'))"
proof -
  from run
  have loop: "connect_loop rt c addr timeout loc des (t0 + timeout) None [Time t0] w1
          = Some (res, tr, w')"
    by (simp add: connect_registered [where connectors = connectors, OF parse reg t0])
  from connect_loop_recording [OF loop] obtain suffix
    where tr: "tr = [Time t0] @ suffix"
      and rec: "connect_loop (recording rt) (recording_connector c) addr timeout loc des
                  (t0 + timeout) None [Time t0] ([Time t0], w1)
                = Some (res, tr, ([Time t0] @ observable suffix, w'))"
    by blast
  have parse': "parse_address (recording rt) addr = Inr (scheme, loc)"
    by (simp add: recording_parse parse)
  have "connect (recording rt) (recorded connectors) addr timeout des ([], w0)
          = connect_loop (recording rt) (recording_connector c) addr timeout loc des
              (t0 + timeout) None [Time t0] ([] @ [Time t0], w1)"
    by (rule connect_registered [where connectors = "recorded connectors",
          OF parse' recorded_Some [where connectors = connectors, OF reg]
            recording_time [OF t0]])
  with rec tr show ?thesis by simp
qed


lemma attempts_observable: "attempts (observable tr) = attempts tr"
  by (induction tr rule: observable.induct) simp_all


lemma readings_observable: "readings (observable tr) = readings tr"
  by (induction tr rule: observable.induct) simp_all

lemma budgets_observable: "budgets (observable tr) = budgets tr"
  by (induction tr rule: observable.induct) simp_all

lemma try_body_first:
  assumes "try_body rt c loc des d w = (r, evs, w1)"
  shows "\<exists>rest. evs = Connector_connect loc des (raised_of (fst (c loc des w))) # rest"
  using assms unfolding try_body_def
  by (auto simp: raised_of_def split: prod.splits sum.splits)

lemma connect_loop_first:
  assumes run: "connect_loop rt c addr timeout loc des deadline error tr w = Some (res, tr', w')"
  shows "\<exists>rest. tr' = tr @ Connector_connect loc des (raised_of (fst (c loc des w))) # rest"
proof -
  let ?P = "\<lambda>(error :: string option) tr w y.
     \<exists>rest. fst (snd y) = tr @ Connector_connect loc des (raised_of (fst (c loc des w))) # rest"
  have "?P error tr w (res, tr', w')"
    using run
  proof (induction rule: connect_loop_cases)
    case (success error tr w comm evs w1)
    from try_body_first [OF success(1)] show ?case by auto
  next
    case (retry error tr w e evs w1 now w2 y)
    from retry(4) obtain rest' where "fst (snd y) =
        (tr @ evs @ [Time now, Sleep (1 / 100), Debug ''sleeping on connect'']) @ rest'"
      by blast
    with try_body_first [OF retry(1)] show ?case by auto
  next
    case (expired error tr w e evs w1 now w2)
    from try_body_first [OF expired(1)] show ?case by auto
  next
    case (timed_out error tr w evs w1)
    from try_body_first [OF timed_out(1)] show ?case by auto
  next
    case (other error tr w x evs w1)
    from try_body_first [OF other(1)] show ?case by auto
  qed
  then show ?thesis by simp
qed


subsection \<open>The scripted environment, evaluated\<close>

lemma scripted_parse_mem: "parse_address scripted ''mem://x'' = Inr (''mem'', ''x'')"
  by (simp add: scripted_def)

lemma scripted_parse_bogus: "parse_address scripted ''bogus://host'' = Inr (''bogus'', ''host'')"
  by (simp add: scripted_def)

lemma registry_mem: "registry ''mem'' = Some mem_connector"
  by (simp add: registry_def)

lemma registry_bogus: "registry ''bogus'' = None"
  by (simp add: registry_def)

lemma scripted_time: "time scripted (clock, script) = (clock, (clock, script))"
  by (simp add: scripted_def)

lemma scripted_sleep: "sleep scripted d (clock, script) = (clock + d, script)"
  by (simp add: scripted_def)

lemma scripted_try_body:
  "try_body scripted mem_connector loc des d (clock, r # rs) =
     (r, [Connector_connect loc des None, Time clock, With_timeout (d - clock) (raised_of r)],
      (clock + 1 / 1000, rs))"
  by (simp add: try_body_def scripted_def mem_connector_def)

lemma scripted_try_body_Nil:
  "try_body scripted mem_connector loc des d (clock, []) =
     (Inl TimeoutError,
      [Connector_connect loc des None, Time clock, With_timeout (d - clock) (Some TimeoutError)],
      (clock + max (d - clock) 0, []))"
  by (simp add: try_body_def scripted_def mem_connector_def raised_of_def)



lemma listener_registry_mem: "listener_registry ''mem'' = Some mem_listener_class"
  by (simp add: listener_registry_def)

lemma listener_registry_bogus: "listener_registry ''bogus'' = None"
  by (simp add: listener_registry_def)

lemma scripted_refused_twice:
  "connect scripted registry ''mem://x'' (1 / 200) True
     (0, [Inl (EnvironmentError ''refused''), Inl (EnvironmentError ''unreachable''), Inr ''comm''])
   = Some (Inl (IOError (Percent ''Timed out trying to connect to %r after %s s: %s''
              [Repr ''mem://x'', Str_seconds (1 / 200), Str ''unreachable''])),
       refused_twice, (12 / 1000, [Inr ''comm'']))"
  by (simp add: connect_registered [where connectors = registry,
        OF scripted_parse_mem registry_mem scripted_time]
      connect_loop_transient [OF scripted_try_body scripted_time] scripted_sleep
      raised_of_def connect_raise_def refused_twice_def)

lemma scripted_no_time:
  "connect scripted registry ''mem://x'' (- 1) True (0, []) =
     Some (Inl (IOError (Percent ''Timed out trying to connect to %r after %s s: %s''
              [Repr ''mem://x'', Str_seconds (- 1), Str ''connect() didn't finish in time''])),
           [Time 0, Connector_connect ''x'' True None, Time 0,
            With_timeout (- 1) (Some TimeoutError)],
           (0, []))"
  by (simp add: connect_registered [where connectors = registry,
        OF scripted_parse_mem registry_mem scripted_time]
      connect_loop_timed_out [OF scripted_try_body_Nil] connect_raise_def)








section \<open>The claims\<close>

text \<open>
  Claim C1. When an attempt of \<^verbatim>\<open>connect\<close> raises an \<^verbatim>\<open>EnvironmentError\<close>, in whatever
  iteration, its text becomes the loop's \<^verbatim>\<open>error\<close>; the clock is read, and if the reading
  is strictly before the deadline, which is the start time plus the timeout, the loop
  sleeps 0.01 s and goes round again; otherwise \<^verbatim>\<open>connect\<close> raises the \<^verbatim>\<open>IOError\<close> of
  \<^verbatim>\<open>_raise\<close> (the spec's ConnectTimeout) built from that text.
\<close>
theorem connect_transient_error:
  assumes parse: "parse_address rt addr = Inr (scheme, loc)"
    and reg: "connectors scheme = Some c"
    and t0: "time rt w0 = (t0, w0')"
    and attempt: "try_body rt c loc des (t0 + timeout) w = (Inl (EnvironmentError e), evs, w1)"
    and now: "time rt w1 = (now, w2)"
  shows "connect rt connectors addr timeout des w0 =
           connect_loop rt c addr timeout loc des (t0 + timeout) None [Time t0] w0'
       \<and> connect_loop rt c addr timeout loc des (t0 + timeout) error tr w =
           (if now < t0 + timeout
            then connect_loop rt c addr timeout loc des (t0 + timeout) (Some e)
                   (tr @ evs @ [Time now, Sleep (1 / 100), Debug ''sleeping on connect''])
                   (sleep rt (1 / 100) w2)
            else Some (Inl (IOError (connect_raise addr timeout (Some e))),
                       tr @ evs @ [Time now], w2))"
  using connect_registered [where connectors = connectors, OF parse reg t0]
    connect_loop_transient [OF attempt now]
  by simp

theorem connect_transient_error_witness:
  "connect scripted registry ''mem://x'' 3 True (0, [Inl (EnvironmentError ''refused''), Inr ''comm''])
     = Some (Inr ''comm'',
         [Time 0, Connector_connect ''x'' True None, Time 0,
          With_timeout 3 (Some (EnvironmentError ''refused'')),
          Time (1 / 1000), Sleep (1 / 100), Debug ''sleeping on connect'',
          Connector_connect ''x'' True None, Time (11 / 1000), With_timeout (2989 / 1000) None],
         (12 / 1000, []))
   \<and> connect scripted registry ''mem://x'' (1 / 2000) True (0, [Inl (EnvironmentError ''refused''), Inr ''comm''])
     = Some (Inl (IOError (Percent ''Timed out trying to connect to %r after %s s: %s''
                   [Repr ''mem://x'', Str_seconds (1 / 2000), Str ''refused''])),
         [Time 0, Connector_connect ''x'' True None, Time 0,
          With_timeout (1 / 2000) (Some (EnvironmentError ''refused'')), Time (1 / 1000)],
         (1 / 1000, [Inr ''comm'']))"
proof -
  let ?w = "(0 :: real, [Inl (EnvironmentError ''refused''), Inr ''comm''] :: (unit raised + string) list)"
  have t0: "time scripted ?w = (0, ?w)" by (simp add: scripted_time)
  have now: "time scripted (1 / 1000, [Inr ''comm'' :: unit raised + string])
               = (1 / 1000, (1 / 1000, [Inr ''comm'']))"
    by (simp add: scripted_time)
  have a: "try_body scripted mem_connector ''x'' True (0 + 3) ?w =
      (Inl (EnvironmentError ''refused''),
       [Connector_connect ''x'' True None, Time 0, With_timeout 3 (Some (EnvironmentError ''refused''))],
       (1 / 1000, [Inr ''comm'']))"
    by (simp add: scripted_try_body raised_of_def)
  have b: "try_body scripted mem_connector ''x'' True (0 + 1 / 2000) ?w =
      (Inl (EnvironmentError ''refused''),
       [Connector_connect ''x'' True None, Time 0, With_timeout (1 / 2000) (Some (EnvironmentError ''refused''))],
       (1 / 1000, [Inr ''comm'']))"
    by (simp add: scripted_try_body raised_of_def)
  show ?thesis
    using connect_transient_error [where connectors = registry and error = None and tr = "[Time 0]",
        OF scripted_parse_mem registry_mem t0 a now]
      connect_transient_error [where connectors = registry and error = None and tr = "[Time 0]",
        OF scripted_parse_mem registry_mem t0 b now]
    by (simp add: scripted_sleep scripted_try_body connect_loop_success raised_of_def connect_raise_def)
qed



text \<open>
  Claim C3. When the scheme of the address is in no registry, \<^verbatim>\<open>connect\<close> and \<^verbatim>\<open>listen\<close>
  raise the \<^verbatim>\<open>ValueError\<close> for an unknown scheme (the spec's UnknownScheme) at once: the
  trace is empty (the clock is not read, no connector is called, nothing sleeps) and the
  world is as it was.
\<close>
theorem unknown_scheme:
  assumes parse: "parse_address rt addr = Inr (scheme, loc)"
  shows "(connectors scheme = None \<longrightarrow>
            connect rt connectors addr timeout deserialize w =
              Some (Inl (ValueError (Percent ''unknown scheme %r in address %r''
                                       [Repr scheme, Repr addr])), [], w))
       \<and> (listeners scheme = None \<longrightarrow>
            listen rt listeners addr handle_comm deserialize w =
              (Inl (ValueError (Percent ''unknown scheme %r in address %r''
                                  [Repr scheme, Repr addr])), [], w))"
  using parse by (simp add: connect_def listen_def)

theorem unknown_scheme_witness:
  "connect scripted registry ''bogus://host'' 3 True (0, [Inr ''comm'']) =
     Some (Inl (ValueError (Percent ''unknown scheme %r in address %r''
                              [Repr ''bogus'', Repr ''bogus://host''])), [], (0, [Inr ''comm'']))
   \<and> listen scripted listener_registry ''bogus://host'' () True (0, [Inr ''comm'']) =
     (Inl (ValueError (Percent ''unknown scheme %r in address %r''
                         [Repr ''bogus'', Repr ''bogus://host''])), [], (0, [Inr ''comm'']))"
  using unknown_scheme [where connectors = registry and listeners = listener_registry,
      OF scripted_parse_bogus]
  by (simp add: registry_bogus listener_registry_bogus)

text \<open>
  Claim C4. Whenever \<^verbatim>\<open>connect\<close> raises the \<^verbatim>\<open>IOError\<close> of \<^verbatim>\<open>_raise\<close> (the spec's
  ConnectTimeout), the message is the format \<^verbatim>\<open>"Timed out trying to connect to %r after
  %s s: %s"\<close> applied to the address asked for, the timeout given, and the text of the
  last \<^verbatim>\<open>EnvironmentError\<close> of the run; when there was none, or its text is empty, the
  default text stands in its place.
\<close>
theorem connect_timeout_message:
  assumes run: "connect rt connectors addr timeout des w0 = Some (Inl (IOError m), tr, w')"
  shows "m = Percent ''Timed out trying to connect to %r after %s s: %s''
               [Repr addr, Str_seconds timeout,
                Str (case last_error tr of
                       None \<Rightarrow> ''connect() didn't finish in time''
                     | Some e \<Rightarrow> if e = [] then ''connect() didn't finish in time'' else e)]"
proof -
  from run obtain scheme loc c t0 w1
    where loop: "connect_loop rt c addr timeout loc des (t0 + timeout) None [Time t0] w1
                   = Some (Inl (IOError m), tr, w')"
    by (rule connect_IOError_from_loop)
  have "None = last_error [Time t0]" by simp
  from connect_loop_error_is_last [OF loop this]
  have "m = connect_raise addr timeout (last_error tr)" by simp
  then show ?thesis by (simp add: connect_raise_def)
qed

theorem connect_timeout_message_witness:
  "connect scripted registry ''mem://x'' (1 / 200) True
     (0, [Inl (EnvironmentError ''refused''), Inl (EnvironmentError ''unreachable''), Inr ''comm''])
   = Some (Inl (IOError (Percent ''Timed out trying to connect to %r after %s s: %s''
              [Repr ''mem://x'', Str_seconds (1 / 200), Str ''unreachable''])),
       refused_twice, (12 / 1000, [Inr ''comm'']))
   \<and> last_error refused_twice = Some ''unreachable''"
proof -
  have "last_error refused_twice = Some ''unreachable''"
    by (simp add: refused_twice_def)
  with scripted_refused_twice connect_timeout_message [OF scripted_refused_twice]
  show ?thesis by blast
qed








text \<open>
  Claim C8. For an address whose scheme has a listener class, \<^verbatim>\<open>listen\<close> calls the class
  once with the location, the handler and the \<^verbatim>\<open>deserialize\<close> flag and returns the
  listener it made; \<^verbatim>\<open>listen\<close> itself does not call \<^verbatim>\<open>start\<close>, and the world is as the
  constructor left it.
\<close>
theorem listen_constructs:
  assumes parse: "parse_address rt addr = Inr (scheme, loc)"
    and reg: "listeners scheme = Some listener_class"
    and init: "listener_class loc handle_comm deserialize w = (Inr l, w1)"
  shows "listen rt listeners addr handle_comm deserialize w = (Inr l, [Init loc deserialize], w1)
       \<and> count_list [Init loc deserialize] Start = 0"
  using assms by (simp add: listen_def)

theorem listen_constructs_witness:
  "listen scripted listener_registry ''mem://x'' () True (0, []) =
     (Inr scripted_listener, [Init ''x'' True], (0, []))
   \<and> start scripted_listener (0, []) = (None, (1, []))"
proof -
  have init: "mem_listener_class ''x'' () True (0, []) = (Inr scripted_listener, (0, []))"
    by (simp add: mem_listener_class_def)
  have "start scripted_listener (0, []) = (None, (1, []))"
    by (simp add: scripted_listener_def)
  with listen_constructs [where listeners = listener_registry,
      OF scripted_parse_mem listener_registry_mem init]
  show ?thesis by blast
qed

text \<open>
  Claim C9. When a listener is used in a \<^verbatim>\<open>with\<close> statement and \<^verbatim>\<open>start\<close> returns,
  entering the scope calls \<^verbatim>\<open>start\<close> once and binds the listener itself, and leaving
  it calls \<^verbatim>\<open>stop\<close> once, whether the body returned or raised: the calls are
  \<^verbatim>\<open>start\<close>, the body, \<^verbatim>\<open>stop\<close>. The body's exception is raised again unless \<^verbatim>\<open>stop\<close>
  raises one of its own.
\<close>
theorem listener_scope:
  assumes enter: "start mgr w = (None, w1)"
    and body: "body mgr w1 = (rb, w2)"
    and exit: "stop mgr w2 = (rs, w3)"
  shows "Listener_enter mgr w = (Inr mgr, [Start], w1)
       \<and> Listener_exit mgr exc w2 = (case rs of Some x \<Rightarrow> Inl x | None \<Rightarrow> Inr (), [Stop], w3)
       \<and> with_stmt mgr body w =
           (case rs of Some x \<Rightarrow> Inl x | None \<Rightarrow> rb, [Start, Body, Stop], w3)
       \<and> count_list [Start, Body, Stop] Start = 1
       \<and> count_list [Start, Body, Stop] Stop = 1"
  using assms
  by (auto simp: Listener_enter_def Listener_exit_def with_stmt_def
      split: option.splits sum.splits)

theorem listener_scope_witness:
  "start counting_listener (0, 0) = (None, (1, 0))
   \<and> Listener_enter counting_listener (0, 0) = (Inr counting_listener, [Start], (1, 0))
   \<and> with_stmt counting_listener failing_body (0, 0) =
       (Inl ''boom'', [Start, Body, Stop], (1, 1))"
proof -
  have enter: "start counting_listener (0, 0) = (None, (1, 0))"
    by (simp add: counting_listener_def)
  have body: "failing_body counting_listener (1, 0) = (Inl ''boom'', (1, 0))"
    by (simp add: failing_body_def)
  have exit: "stop counting_listener (1, 0) = (None, (1, 1))"
    by (simp add: counting_listener_def)
  from enter listener_scope [where body = failing_body, OF enter body exit]
  show ?thesis by simp
qed

text \<open>
  Claim C10. Take a run of \<^verbatim>\<open>connect\<close> through a registered scheme that returns,
  whatever the timeout (zero and negative ones too). Run in the recording environment it
  returns the same, and the record the environment has kept begins with the reading of
  the start time followed at once by a call of the connector, made with the location and
  the flag on the world that reading left: no result, and so no \<^verbatim>\<open>IOError\<close> of \<^verbatim>\<open>_raise\<close>,
  comes before the connector has been called once.
\<close>
theorem connect_attempt_before_timeout:
  assumes parse: "parse_address rt addr = Inr (scheme, loc)"
    and reg: "connectors scheme = Some c"
    and t0: "time rt w0 = (t0, w1)"
    and run: "connect rt connectors addr timeout des w0 = Some (res, tr, w')"
  shows "connect (recording rt) (recorded connectors) addr timeout des ([], w0)
           = Some (res, tr, (observable tr, w'))
       \<and> (\<exists>rest. observable tr =
              Time t0 # Connector_connect loc des (raised_of (fst (c loc des w1))) # rest)
       \<and> 1 \<le> attempts (observable tr)"
proof -
  from run
  have loop: "connect_loop rt c addr timeout loc des (t0 + timeout) None [Time t0] w1
          = Some (res, tr, w')"
    by (simp add: connect_registered [where connectors = connectors, OF parse reg t0])
  from connect_loop_first [OF loop] obtain rest
    where tr: "tr = Time t0 # Connector_connect loc des (raised_of (fst (c loc des w1))) # rest"
    by auto
  then have "observable tr =
      Time t0 # Connector_connect loc des (raised_of (fst (c loc des w1))) # observable rest"
    by simp
  moreover from tr have "1 \<le> attempts (observable tr)" by simp
  moreover note connect_recording [where connectors = connectors, OF parse reg t0 run]
  ultimately show ?thesis by blast
qed

theorem connect_attempt_before_timeout_witness:
  "connect scripted registry ''mem://x'' (- 1) True (0, []) =
     Some (Inl (IOError (Percent ''Timed out trying to connect to %r after %s s: %s''
              [Repr ''mem://x'', Str_seconds (- 1), Str ''connect() didn't finish in time''])),
           [Time 0, Connector_connect ''x'' True None, Time 0,
            With_timeout (- 1) (Some TimeoutError)],
           (0, []))
   \<and> connect (recording scripted) (recorded registry) ''mem://x'' (- 1) True ([], (0, [])) =
     Some (Inl (IOError (Percent ''Timed out trying to connect to %r after %s s: %s''
              [Repr ''mem://x'', Str_seconds (- 1), Str ''connect() didn't finish in time''])),
           [Time 0, Connector_connect ''x'' True None, Time 0,
            With_timeout (- 1) (Some TimeoutError)],
           ([Time 0, Connector_connect ''x'' True None, Time 0,
             With_timeout (- 1) (Some TimeoutError)],
            (0, [])))
   \<and> (1 :: nat) \<le> attempts [Time 0, Connector_connect ''x'' True None, Time 0,
                              With_timeout (- 1) (Some (TimeoutError :: unit raised))]"
proof -
  from connect_attempt_before_timeout [where connectors = registry,
      OF scripted_parse_mem registry_mem scripted_time scripted_no_time]
  have "connect (recording scripted) (recorded registry) ''mem://x'' (- 1) True ([], (0, [])) =
     Some (Inl (IOError (Percent ''Timed out trying to connect to %r after %s s: %s''
              [Repr ''mem://x'', Str_seconds (- 1), Str ''connect() didn't finish in time''])),
           [Time 0, Connector_connect ''x'' True None, Time 0,
            With_timeout (- 1) (Some TimeoutError)],
           (observable [Time 0, Connector_connect ''x'' True None, Time 0,
             With_timeout (- 1) (Some TimeoutError)],
            (0, [])))
    \<and> 1 \<le> attempts (observable [Time 0, Connector_connect ''x'' True None, Time 0,
                              With_timeout (- 1) (Some (TimeoutError :: unit raised))])"
    by blast
  with scripted_no_time show ?thesis by simp
qed

end
